theory Spec2Isabelle
  imports Main "HOL-Library.Word"
begin

section \<open>The media-library list model and its loader (mlbasemodel.cpp)\<close>

text \<open>
  The embedding follows \<^verbatim>\<open>modules/gui/qt/medialibrary/mlbasemodel.cpp\<close>.
  A \<^verbatim>\<open>std::unique_ptr<MLItem>\<close> of the source is an \<open>'a option\<close>: \<open>None\<close> is the null
  pointer, and moving out of a pointer leaves \<open>None\<close> behind. Task identifiers
  (\<^verbatim>\<open>quint64\<close>, \<^verbatim>\<open>size_t\<close>) are 64-bit words. A C++ \<^verbatim>\<open>int\<close> is an \<open>int\<close> of HOL
  together with a check of the 32-bit range wherever the source computes with it: signed
  overflow is undefined in C++, and the model stops there with \<open>SignedOverflow\<close>.
  An exception (\<^verbatim>\<open>std::vector::at\<close> out of range) and a failed \<^verbatim>\<open>assert\<close> are error values.
\<close>

datatype error = OutOfRange | SignedOverflow | AssertionFailed | NullDereference | Unreachable





subsection \<open>Qt strings\<close>

text \<open>
  A \<^verbatim>\<open>QString\<close> or \<^verbatim>\<open>QByteArray\<close> is null (\<open>None\<close>) or holds characters, possibly none.
  Qt's comparison \<^verbatim>\<open>==\<close> looks at the characters only, so the null string and the empty string are
  equal; \<^verbatim>\<open>toUtf8\<close> of the null string is the null byte array.
\<close>

type_synonym QString = "string option"

type_synonym QByteArray = "string option"

definition QString_chars :: "QString \<Rightarrow> string" where
  "QString_chars s = (case s of None \<Rightarrow> [] | Some cs \<Rightarrow> cs)"

definition QString_length :: "QString \<Rightarrow> nat" where
  "QString_length s = length (QString_chars s)"

definition QString_isNull :: "QString \<Rightarrow> bool" where
  "QString_isNull s = (s = None)"

definition QString_eq :: "QString \<Rightarrow> QString \<Rightarrow> bool" where
  "QString_eq a b = (QString_chars a = QString_chars b)"

definition toUtf8 :: "QString \<Rightarrow> QByteArray" where
  "toUtf8 s = (case s of None \<Rightarrow> None | Some cs \<Rightarrow> Some cs)"

subsection \<open>Query parameters\<close>

type_synonym MLItemId = "int \<times> nat"

type_synonym vlc_ml_sorting_criteria_t = nat

text \<open>
  \<^verbatim>\<open>vlc_ml_query_params_t\<close> is declared in vlc_media_library.h, which is not among the
  sources; its fields \<open>i_nbResults\<close> and \<open>i_offset\<close> are \<^verbatim>\<open>uint32_t\<close>. A \<^verbatim>\<open>size_t\<close> is a
  64-bit word. An assignment to one of the two fields converts to 32 bits: of a \<^verbatim>\<open>size_t\<close> the
  low 32 bits are kept (\<open>ucast\<close>), and an \<^verbatim>\<open>int\<close> is taken modulo \<open>2 ^ 32\<close> (\<open>word_of_int\<close>), so
  that \<open>- 1\<close> becomes 4294967295.
\<close>

record vlc_ml_query_params_t =
  psz_pattern :: "string option"
  i_nbResults :: "32 word"
  i_offset :: "32 word"
  i_sort :: vlc_ml_sorting_criteria_t
  b_desc :: bool

record MLOp =
  op_parent :: MLItemId
  m_searchPattern :: QByteArray
  op_sort :: vlc_ml_sorting_criteria_t
  m_sortDesc :: bool

definition MLOp_new :: "MLItemId \<Rightarrow> QString \<Rightarrow> vlc_ml_sorting_criteria_t \<Rightarrow> bool \<Rightarrow> MLOp" where
  \<comment> \<open>the constructor \<^verbatim>\<open>MLOp::MLOp(parentId, searchPattern, sort, sort_desc)\<close>\<close>
  "MLOp_new parentId searchPattern sort_c sort_desc =
     \<lparr>op_parent = parentId, m_searchPattern = toUtf8 searchPattern, op_sort = sort_c,
      m_sortDesc = sort_desc\<rparr>"

definition getQueryParams :: "MLOp \<Rightarrow> 64 word \<Rightarrow> 64 word \<Rightarrow> vlc_ml_query_params_t" where
  \<comment> \<open>\<^verbatim>\<open>getQueryParams(size_t offset, size_t limit)\<close>\<close>
  "getQueryParams mlop offset limit =
     \<lparr>psz_pattern = (if m_searchPattern mlop = None then None else m_searchPattern mlop),
      i_nbResults = ucast limit,
      i_offset = ucast offset,
      i_sort = op_sort mlop,
      b_desc = m_sortDesc mlop\<rparr>"

type_synonym task_id = "64 word"

subsection \<open>Tasks run on the media-library thread\<close>

text \<open>
  Every loader task of the source is a call
  \<^verbatim>\<open>m_medialib->runOnMLThread<Ctx>(this, work, finish)\<close>: a fresh context is handed to
  \<open>work\<close> on the media-library thread and then to \<open>finish\<close>, with the task id, on the UI thread.
  A callback of the source is modelled by the list of the calls made to it.
\<close>

definition runOnMLThread :: "'ctx \<Rightarrow> ('ctx \<Rightarrow> 'ctx) \<Rightarrow> (task_id \<Rightarrow> 'ctx \<Rightarrow> 'call list) \<Rightarrow> task_id \<Rightarrow> 'call list" where
  \<comment> \<open>Modelled from the spec: \<^verbatim>\<open>MediaLib::runOnMLThread\<close> is declared in medialib.hpp, which is
      not among the sources. The spec: "message-passing to a worker, result delivered by posting
      back to the UI thread", "results delivered asynchronously via task-id-tagged callbacks".
      This is a task that runs to its end, tagged with the id \<open>taskId\<close> the call returned.\<close>
  "runOnMLThread ctx0 work finish taskId = finish taskId (work ctx0)"

subsection \<open>loadItemByIdTask\<close>

definition loadItemByIdTask_work :: "('id \<Rightarrow> 'a option) \<Rightarrow> 'id \<Rightarrow> 'a option \<Rightarrow> 'a option" where
  \<comment> \<open>\<^verbatim>\<open>ctx.item = op->loadItemById(ml, itemId);\<close>\<close>
  "loadItemByIdTask_work loadItemById itemId ctx_item = loadItemById itemId"

definition loadItemByIdTask_done :: "task_id \<Rightarrow> 'a option \<Rightarrow> (task_id \<times> 'a) list" where
  \<comment> \<open>\<^verbatim>\<open>if (!ctx.item) return; cb(taskId, std::move(ctx.item));\<close>\<close>
  "loadItemByIdTask_done taskId ctx_item =
     (case ctx_item of None \<Rightarrow> [] | Some item \<Rightarrow> [(taskId, item)])"

definition loadItemByIdTask :: "('id \<Rightarrow> 'a option) \<Rightarrow> 'id \<Rightarrow> task_id \<Rightarrow> (task_id \<times> 'a) list" where
  "loadItemByIdTask loadItemById itemId =
     runOnMLThread None (loadItemByIdTask_work loadItemById itemId) loadItemByIdTask_done"


subsection \<open>loadItemsTask\<close>








definition loadItemsTask_done :: "task_id \<Rightarrow> 'a option list \<Rightarrow> (task_id \<times> 'a option list) list" where
  \<comment> \<open>\<^verbatim>\<open>cb(id, ctx.items);\<close>\<close>
  "loadItemsTask_done taskId ctx_items = [(taskId, ctx_items)]"



subsection \<open>The model: state, the list cache and the virtual members\<close>

text \<open>
  \<^verbatim>\<open>MLItem\<close> is an abstract class of mlitem.hpp; of its members the source uses
  \<^verbatim>\<open>getId()\<close> only. The record keeps the id and, as a string, whatever else an item holds.
\<close>

record MLItem =
  getId :: MLItemId
  item_contents :: string

record MLListCacheLoader =
  m_medialib :: nat
  m_op :: MLOp

text \<open>
  \<^verbatim>\<open>ListCache\<close> (util/listcache.hpp) is not among the sources: "that cache type itself is
  referenced here but not defined in the excerpt". The model is therefore parametric in it: a
  value of type \<open>'cache\<close> is the state of one cache object, and the record below holds the members
  the source calls, together with the sentinel \<^verbatim>\<open>MLListCache::COUNT_UNINITIALIZED\<close>.
  \<^verbatim>\<open>find\<close> returns the item and, through its pointer argument, the row.
\<close>

record 'cache ListCache =
  COUNT_UNINITIALIZED :: int
  newCache :: "MLListCacheLoader \<Rightarrow> bool \<Rightarrow> 32 word \<Rightarrow> 32 word \<Rightarrow> 'cache"
  initCount :: "'cache \<Rightarrow> 'cache"
  queryCount :: "'cache \<Rightarrow> int"
  maximumCount :: "'cache \<Rightarrow> int"
  find_item :: "'cache \<Rightarrow> (MLItem \<Rightarrow> bool) \<Rightarrow> (MLItem \<times> int) option"
  updateItem :: "MLItem \<Rightarrow> 'cache \<Rightarrow> 'cache"
  deleteItem :: "(MLItem \<Rightarrow> bool) \<Rightarrow> 'cache \<Rightarrow> 'cache"
  moveRange :: "int \<Rightarrow> int \<Rightarrow> int \<Rightarrow> 'cache \<Rightarrow> 'cache"
  deleteRange :: "int \<Rightarrow> int \<Rightarrow> 'cache \<Rightarrow> 'cache"
  invalidate :: "'cache \<Rightarrow> 'cache"

datatype SortOrder = AscendingOrder | DescendingOrder

record QModelIndex =
  isValid :: bool
  row :: int

record QJSValue =
  isCallable :: bool
  js_value :: nat

text \<open>
  The members of \<^verbatim>\<open>MLBaseModel\<close> the source reads and writes. \<open>shared\<close> is the store of the
  cells made by \<^verbatim>\<open>std::make_shared<quint64>()\<close>: an address is an index into it.
\<close>

record 'cache MLBaseModel =
  m_mediaLib :: "nat option"
  m_cache :: "'cache option"
  m_itemLoader :: "MLListCacheLoader option"
  m_parent :: MLItemId
  m_search_pattern :: QString
  m_sort :: vlc_ml_sorting_criteria_t
  m_sort_desc :: bool
  m_limit :: "32 word"
  m_offset :: "32 word"
  shared :: "task_id list"

text \<open>
  The virtual members, implemented in subclasses that are not among the sources, and
  \<^verbatim>\<open>cachable()\<close> of the class declaration, are parameters of the model.
\<close>

record 'cache MLBaseModel_virtuals =
  createLoader :: "'cache MLBaseModel \<Rightarrow> MLListCacheLoader"
  cachable :: "'cache MLBaseModel \<Rightarrow> bool"
  nameToCriteria :: "QString \<Rightarrow> vlc_ml_sorting_criteria_t"
  roleNames :: "(int \<times> string) list"
  itemRoleData :: "MLItem \<Rightarrow> int \<Rightarrow> string"

text \<open>
  What a member function does beyond changing the model is a list of events: the signals it
  emits, the calls into \<^verbatim>\<open>QAbstractItemModel\<close>, the tasks it gives to the loader and the
  calls of a JavaScript function. A slot connected to a signal is a function of its own
  (\<open>onResetRequested\<close> for \<open>resetRequested\<close>).
\<close>

datatype signal =
  resetRequested | parentIdChanged | sortOrderChanged | sortCriteriaChanged
  | limitChanged | offsetChanged | loadingChanged

datatype ItemCallback =
  GetDataCallback nat int QJSValue
  \<comment> \<open>the lambda of \<^verbatim>\<open>getData\<close>: the address of \<open>requestId\<close>, \<open>indxSize\<close>, \<open>callback\<close>\<close>

datatype ItemByIdCallback =
  UpdateItemCallback
  \<comment> \<open>the lambda of \<^verbatim>\<open>updateItemInCache\<close>: \<^verbatim>\<open>m_cache->updateItem(std::move(item))\<close>\<close>

datatype event =
  Emit signal
  | BeginResetModel
  | EndResetModel
  | LoadItemsTask MLListCacheLoader task_id "int list" ItemCallback
  | LoadItemByIdTask MLListCacheLoader task_id MLItemId ItemByIdCallback
  | JSCall QJSValue "(string \<rightharpoonup> string) list"

subsection \<open>Loading items for a JavaScript caller\<close>

definition loadItems ::
  "'cache MLBaseModel_virtuals \<Rightarrow> int list \<Rightarrow> ItemCallback \<Rightarrow> task_id \<Rightarrow> 'cache MLBaseModel
     \<Rightarrow> task_id \<times> 'cache MLBaseModel \<times> event list" where
  \<comment> \<open>\<open>taskId\<close> is the id \<^verbatim>\<open>runOnMLThread\<close> returns for the task\<close>
  "loadItems V indexes cb taskId st =
     (let loader = (case m_itemLoader st of None \<Rightarrow> createLoader V st | Some l \<Rightarrow> l);
          st1 = st\<lparr>m_itemLoader := Some loader\<rparr>
      in (taskId, st1, [LoadItemsTask loader taskId indexes cb]))"

definition getData ::
  "'cache MLBaseModel_virtuals \<Rightarrow> QModelIndex list \<Rightarrow> QJSValue \<Rightarrow> task_id \<Rightarrow> 'cache MLBaseModel
     \<Rightarrow> 'cache MLBaseModel \<times> event list" where
  "getData V indexes callback taskId st =
     (if \<not> isCallable callback then (st, [])
      else
        (let indx = map row indexes;
             requestId = length (shared st);
             st1 = st\<lparr>shared := shared st @ [0]\<rparr>;
             cb = GetDataCallback requestId (int (length indx)) callback
         in case loadItems V indx cb taskId st1 of
              (returned, st2, events) \<Rightarrow>
                (st2\<lparr>shared := (shared st2)[requestId := returned]\<rparr>, events)))"

definition dataDict_of :: "'cache MLBaseModel_virtuals \<Rightarrow> MLItem option \<Rightarrow> (string \<rightharpoonup> string)" where
  \<comment> \<open>\<^verbatim>\<open>if (item) for (int role: roles.keys()) dataDict[roles[role]] = itemRoleData(item.get(), role);\<close>\<close>
  "dataDict_of V item =
     (case item of
        None \<Rightarrow> Map.empty
      | Some it \<Rightarrow> fold (\<lambda>(role, name) d. d(name \<mapsto> itemRoleData V it role)) (roleNames V) Map.empty)"

fun ItemCallback_call ::
  "'cache MLBaseModel_virtuals \<Rightarrow> ItemCallback \<Rightarrow> bool \<Rightarrow> 'cache MLBaseModel \<Rightarrow> task_id
     \<Rightarrow> MLItem option list \<Rightarrow> error + event list" where
  \<comment> \<open>a call \<open>cb(id, items)\<close> of the lambda in the model state \<open>st\<close>; \<open>jsEngine\<close> tells whether
      \<^verbatim>\<open>qjsEngine(this)\<close> is non-null\<close>
  "ItemCallback_call V (GetDataCallback requestId indxSize callback) jsEngine st ident items =
     (if \<not> jsEngine \<or> shared st ! requestId \<noteq> ident then Inr []
      else if int (length items) \<noteq> indxSize then Inl AssertionFailed
      else Inr [JSCall callback (map (dataDict_of V) items)])"

subsection \<open>The cache of the model\<close>

definition validateCache ::
  "'cache MLBaseModel_virtuals \<Rightarrow> 'cache ListCache \<Rightarrow> 'cache MLBaseModel
     \<Rightarrow> 'cache MLBaseModel \<times> event list" where
  "validateCache V C st =
     (if m_cache st \<noteq> None then (st, [])
      else if \<not> cachable V st then (st, [])
      else
        (let loader = createLoader V st;
             cache = newCache C loader False (m_limit st) (m_offset st)
         in (st\<lparr>m_cache := Some (initCount C cache)\<rparr>, [Emit loadingChanged])))"

definition resetCache ::
  "'cache MLBaseModel_virtuals \<Rightarrow> 'cache ListCache \<Rightarrow> 'cache MLBaseModel
     \<Rightarrow> 'cache MLBaseModel \<times> event list" where
  "resetCache V C st =
     (case validateCache V C (st\<lparr>m_cache := None\<rparr>) of
        (st', events) \<Rightarrow> (st', [BeginResetModel, EndResetModel] @ events))"

definition invalidateCache ::
  "'cache MLBaseModel_virtuals \<Rightarrow> 'cache ListCache \<Rightarrow> 'cache MLBaseModel
     \<Rightarrow> 'cache MLBaseModel \<times> event list" where
  "invalidateCache V C st =
     (case m_cache st of
        Some cache \<Rightarrow> (st\<lparr>m_cache := Some (invalidate C cache)\<rparr>, [Emit loadingChanged])
      | None \<Rightarrow> validateCache V C st)"

definition onResetRequested ::
  "'cache MLBaseModel_virtuals \<Rightarrow> 'cache ListCache \<Rightarrow> 'cache MLBaseModel
     \<Rightarrow> 'cache MLBaseModel \<times> event list" where
  "onResetRequested V C st = invalidateCache V C st"


subsection \<open>The properties of the query\<close>

definition setParentId ::
  "'cache MLBaseModel_virtuals \<Rightarrow> 'cache ListCache \<Rightarrow> MLItemId \<Rightarrow> 'cache MLBaseModel
     \<Rightarrow> 'cache MLBaseModel \<times> event list" where
  "setParentId V C parentId st =
     (case resetCache V C (st\<lparr>m_parent := parentId\<rparr>) of
        (st', events) \<Rightarrow> (st', events @ [Emit parentIdChanged]))"

definition setSearchPattern ::
  "'cache MLBaseModel_virtuals \<Rightarrow> 'cache ListCache \<Rightarrow> QString \<Rightarrow> 'cache MLBaseModel
     \<Rightarrow> 'cache MLBaseModel \<times> event list" where
  "setSearchPattern V C pattern st =
     (let patternToApply = (if QString_length pattern = 0 then None else pattern) in
      if QString_eq patternToApply (m_search_pattern st) then (st, [])
      else resetCache V C (st\<lparr>m_search_pattern := patternToApply\<rparr>))"

definition setSortOrder ::
  "'cache MLBaseModel_virtuals \<Rightarrow> 'cache ListCache \<Rightarrow> SortOrder \<Rightarrow> 'cache MLBaseModel
     \<Rightarrow> 'cache MLBaseModel \<times> event list" where
  "setSortOrder V C order st =
     (let desc = (order = DescendingOrder) in
      if m_sort_desc st = desc then (st, [])
      else
        (case resetCache V C (st\<lparr>m_sort_desc := desc\<rparr>) of
           (st', events) \<Rightarrow> (st', events @ [Emit sortOrderChanged])))"

definition setSortCriteria ::
  "'cache MLBaseModel_virtuals \<Rightarrow> 'cache ListCache \<Rightarrow> QString \<Rightarrow> 'cache MLBaseModel
     \<Rightarrow> 'cache MLBaseModel \<times> event list" where
  "setSortCriteria V C criteria st =
     (let sort_c = nameToCriteria V criteria in
      if m_sort st = sort_c then (st, [])
      else
        (case resetCache V C (st\<lparr>m_sort := sort_c\<rparr>) of
           (st', events) \<Rightarrow> (st', events @ [Emit sortCriteriaChanged])))"

definition setLimit ::
  "'cache MLBaseModel_virtuals \<Rightarrow> 'cache ListCache \<Rightarrow> 32 word \<Rightarrow> 'cache MLBaseModel
     \<Rightarrow> 'cache MLBaseModel \<times> event list" where
  "setLimit V C limit st =
     (if m_limit st = limit then (st, [])
      else
        (case resetCache V C (st\<lparr>m_limit := limit\<rparr>) of
           (st', events) \<Rightarrow> (st', events @ [Emit limitChanged])))"

definition setOffset ::
  "'cache MLBaseModel_virtuals \<Rightarrow> 'cache ListCache \<Rightarrow> 32 word \<Rightarrow> 'cache MLBaseModel
     \<Rightarrow> 'cache MLBaseModel \<times> event list" where
  "setOffset V C offset st =
     (if m_offset st = offset then (st, [])
      else
        (case resetCache V C (st\<lparr>m_offset := offset\<rparr>) of
           (st', events) \<Rightarrow> (st', events @ [Emit offsetChanged])))"

subsection \<open>Counts\<close>

definition int_of_ssize_t :: "int \<Rightarrow> int" where
  \<comment> \<open>the conversion of an \<^verbatim>\<open>ssize_t\<close> to the \<^verbatim>\<open>int\<close> that \<^verbatim>\<open>rowCount\<close> returns\<close>
  "int_of_ssize_t n = signed_take_bit 31 n"

definition rowCount :: "'cache ListCache \<Rightarrow> 'cache MLBaseModel \<Rightarrow> QModelIndex \<Rightarrow> int" where
  "rowCount C st parent =
     (case m_cache st of
        None \<Rightarrow> 0
      | Some cache \<Rightarrow> if isValid parent then 0 else int_of_ssize_t (queryCount C cache))"

definition getCount :: "'cache ListCache \<Rightarrow> 'cache MLBaseModel \<Rightarrow> 32 word" where
  "getCount C st =
     (case m_cache st of
        None \<Rightarrow> 0
      | Some cache \<Rightarrow>
          if queryCount C cache = COUNT_UNINITIALIZED C then 0
          else word_of_int (queryCount C cache))"

definition getMaximumCount :: "'cache ListCache \<Rightarrow> 'cache MLBaseModel \<Rightarrow> 32 word" where
  "getMaximumCount C st =
     (case m_cache st of
        None \<Rightarrow> 0
      | Some cache \<Rightarrow>
          if maximumCount C cache = COUNT_UNINITIALIZED C then 0
          else word_of_int (maximumCount C cache))"

definition loading :: "'cache ListCache \<Rightarrow> 'cache MLBaseModel \<Rightarrow> bool" where
  "loading C st =
     (\<not> (case m_mediaLib st of
           None \<Rightarrow> False
         | Some ml \<Rightarrow>
             (case m_cache st of
                None \<Rightarrow> False
              | Some cache \<Rightarrow> queryCount C cache \<noteq> COUNT_UNINITIALIZED C)))"

subsection \<open>Changes forwarded to the cache\<close>

definition findInCache :: "'cache ListCache \<Rightarrow> 'cache \<Rightarrow> MLItemId \<Rightarrow> MLItem option" where
  \<comment> \<open>called with a cache at hand; the row found is not used by the callers modelled here\<close>
  "findInCache C cache ident =
     (case find_item C cache (\<lambda>item. getId item = ident) of
        None \<Rightarrow> None
      | Some (item, index) \<Rightarrow> Some item)"

definition updateItemInCache ::
  "'cache MLBaseModel_virtuals \<Rightarrow> 'cache ListCache \<Rightarrow> MLItemId \<Rightarrow> task_id \<Rightarrow> 'cache MLBaseModel
     \<Rightarrow> 'cache MLBaseModel \<times> event list" where
  \<comment> \<open>\<open>taskId\<close> is the id \<^verbatim>\<open>runOnMLThread\<close> returns if a task is started\<close>
  "updateItemInCache V C mlid taskId st =
     (case m_cache st of
        None \<Rightarrow> (st, [Emit resetRequested])
      | Some cache \<Rightarrow>
          (case findInCache C cache mlid of
             None \<Rightarrow> (st, [])
           | Some item \<Rightarrow>
               (let loader = (case m_itemLoader st of None \<Rightarrow> createLoader V st | Some l \<Rightarrow> l)
                in (st\<lparr>m_itemLoader := Some loader\<rparr>,
                    [LoadItemByIdTask loader taskId mlid UpdateItemCallback]))))"

fun ItemByIdCallback_call ::
  "'cache ListCache \<Rightarrow> ItemByIdCallback \<Rightarrow> 'cache MLBaseModel \<Rightarrow> task_id \<Rightarrow> MLItem
     \<Rightarrow> error + 'cache MLBaseModel" where
  \<comment> \<open>a call \<open>cb(taskId, item)\<close> of the lambda; \<open>m_cache\<close> is dereferenced without a check\<close>
  "ItemByIdCallback_call C UpdateItemCallback st taskId item =
     (case m_cache st of
        None \<Rightarrow> Inl NullDereference
      | Some cache \<Rightarrow> Inr (st\<lparr>m_cache := Some (updateItem C item cache)\<rparr>))"

definition deleteItemInCache ::
  "'cache ListCache \<Rightarrow> MLItemId \<Rightarrow> 'cache MLBaseModel \<Rightarrow> 'cache MLBaseModel \<times> event list" where
  "deleteItemInCache C mlid st =
     (case m_cache st of
        None \<Rightarrow> (st, [Emit resetRequested])
      | Some cache \<Rightarrow>
          (st\<lparr>m_cache := Some (deleteItem C (\<lambda>item. getId item = mlid) cache)\<rparr>, []))"

definition moveRangeInCache ::
  "'cache ListCache \<Rightarrow> int \<Rightarrow> int \<Rightarrow> int \<Rightarrow> 'cache MLBaseModel \<Rightarrow> 'cache MLBaseModel \<times> event list" where
  "moveRangeInCache C first lst to st =
     (case m_cache st of
        None \<Rightarrow> (st, [Emit resetRequested])
      | Some cache \<Rightarrow> (st\<lparr>m_cache := Some (moveRange C first lst to cache)\<rparr>, []))"

definition deleteRangeInCache ::
  "'cache ListCache \<Rightarrow> int \<Rightarrow> int \<Rightarrow> 'cache MLBaseModel \<Rightarrow> 'cache MLBaseModel \<times> event list" where
  "deleteRangeInCache C first lst st =
     (case m_cache st of
        None \<Rightarrow> (st, [Emit resetRequested])
      | Some cache \<Rightarrow> (st\<lparr>m_cache := Some (deleteRange C first lst cache)\<rparr>, []))"


section \<open>The window of the Windows video outputs (win32/common.c)\<close>

text \<open>
  The embedding follows \<^verbatim>\<open>modules/video_output/win32/common.c\<close>. The file is compiled into
  several modules and for two platforms; the preprocessor symbols it tests are the fields of
  \<open>build\<close>. The Win32 API, the event thread (events.c) and \<^verbatim>\<open>vout_display_PlacePicture\<close> are
  not among the sources: what their calls return is given by the record \<open>os\<close>, and the calls
  that act on a window are the events a function returns with the new state. The COM calls of
  \<^verbatim>\<open>CommonChangeThumbnailClip\<close> are one event. Coordinates and sizes are integers; no
  property below depends on their width. Debug messages are left out.
\<close>

record build =
  VLC_WINSTORE_APP :: bool
  MODULE_NAME_IS_direct3d9 :: bool
  MODULE_NAME_IS_direct3d11 :: bool
  MODULE_NAME_IS_glwin32 :: bool

type_synonym HWND = "nat option"

record RECT =
  r_left :: int
  r_top :: int
  r_right :: int
  r_bottom :: int

record POINT =
  pt_x :: int
  pt_y :: int

datatype vlc_video_align = VLC_VIDEO_ALIGN_CENTER | VLC_VIDEO_ALIGN_TOP | VLC_VIDEO_ALIGN_BOTTOM

record vout_display_cfg_t =
  display_width :: int
  display_height :: int
  align_vertical :: vlc_video_align
  is_fullscreen :: bool

record video_format_t =
  i_visible_width :: int
  i_visible_height :: int

record vout_display_place_t =
  place_x :: int
  place_y :: int
  place_width :: int
  place_height :: int

datatype ws_flag = WS_CLIPCHILDREN | WS_VISIBLE | WS_OTHER nat

datatype swp_flag =
  SWP_NOCOPYBITS | SWP_NOZORDER | SWP_ASYNCWINDOWPOS | SWP_SHOWWINDOW | SWP_FRAMECHANGED
  | SWP_NOMOVE | SWP_NOSIZE

datatype insert_after = HWND_0 | HWND_TOPMOST | HWND_NOTOPMOST

datatype show_cmd = SW_SHOWMAXIMIZED | SW_HIDE | SW_SHOW | SW_SHOWNORMAL

datatype vlc_result = VLC_SUCCESS | VLC_EGENERIC

record vout_display_sys_win32_t =
  hwnd :: HWND
  hvideownd :: HWND
  hparent :: HWND
  hfswnd :: HWND
  parent_window :: "nat option"
  event :: "nat option"
  rect_parent :: RECT
  rect_display :: RECT
  rect_dest :: RECT
  rect_dest_changed :: bool
  b_windowless :: bool
  is_first_placement :: bool
  is_on_top :: bool
  use_desktop :: bool
  vdcfg :: vout_display_cfg_t

record os =
  pf_GetRect :: "vout_display_sys_win32_t \<Rightarrow> bool \<times> RECT"
  GetClientRect :: "HWND \<Rightarrow> bool \<times> RECT"
  ClientToScreen :: "HWND \<Rightarrow> POINT \<Rightarrow> POINT"
  EventThreadUpdateWindowPosition :: "RECT \<Rightarrow> bool"
  EventThreadGetWindowStyle :: "ws_flag set"
  vout_display_PlacePicture :: "video_format_t \<Rightarrow> vout_display_cfg_t \<Rightarrow> vout_display_place_t"
  GetWindowPlacement :: "HWND \<Rightarrow> nat"
  GetMonitorInfo :: "HWND \<Rightarrow> bool \<times> RECT"
  GetAncestor :: "HWND \<Rightarrow> HWND"
  AdjustWindowRect :: "RECT \<Rightarrow> ws_flag set \<Rightarrow> RECT"
  is_WS_EX_TOPMOST :: "HWND \<Rightarrow> bool"

datatype win_call =
  SetWindowPos HWND insert_after int int int int "swp_flag set"
  | ShowWindow HWND show_cmd
  | SetWindowLong_STYLE HWND "ws_flag set"
  | SetParent HWND HWND
  | SetForegroundWindow HWND
  | SetWindowPlacement HWND nat
  | CheckMenuItem HWND bool
  | Call_EventThreadUpdateWindowPosition RECT
  | Call_EventThreadUpdateSourceAndPlace video_format_t vout_display_place_t
  | Call_CommonChangeThumbnailClip bool

fun is_SetWindowPos :: "win_call \<Rightarrow> bool" where
  "is_SetWindowPos (SetWindowPos h after px py w ht flags) = True"
| "is_SetWindowPos c = False"

definition RECTWidth :: "RECT \<Rightarrow> int" where
  "RECTWidth r = r_right r - r_left r"

definition RECTHeight :: "RECT \<Rightarrow> int" where
  "RECTHeight r = r_bottom r - r_top r"

definition EqualRect :: "RECT \<Rightarrow> RECT \<Rightarrow> bool" where
  "EqualRect r1 r2 =
     (r_left r1 = r_left r2 \<and> r_right r1 = r_right r2 \<and> r_top r1 = r_top r2 \<and> r_bottom r1 = r_bottom r2)"

definition OffsetRect :: "RECT \<Rightarrow> int \<Rightarrow> int \<Rightarrow> RECT" where
  "OffsetRect r dx dy =
     \<lparr>r_left = r_left r + dx, r_top = r_top r + dy, r_right = r_right r + dx, r_bottom = r_bottom r + dy\<rparr>"

definition GetRect :: "os \<Rightarrow> vout_display_sys_win32_t \<Rightarrow> bool \<times> RECT" where
  \<comment> \<open>the value \<^verbatim>\<open>CommonInit\<close> gives to \<^verbatim>\<open>sys->pf_GetRect\<close>; \<open>out\<close> is not written when windowless\<close>
  "GetRect api sys =
     (if b_windowless sys then (False, \<lparr>r_left = 0, r_top = 0, r_right = 0, r_bottom = 0\<rparr>)
      else GetClientRect api (hwnd sys))"

subsection \<open>UpdateRects\<close>

definition window_size :: "os \<Rightarrow> video_format_t \<Rightarrow> vout_display_sys_win32_t \<Rightarrow> RECT option" where
  \<comment> \<open>"Retrieve the window size": \<open>None\<close> when \<^verbatim>\<open>pf_GetRect\<close> fails and the function returns\<close>
  "window_size api source sys =
     (if b_windowless sys
      then Some \<lparr>r_left = 0, r_top = 0, r_right = i_visible_width source, r_bottom = i_visible_height source\<rparr>
      else (case pf_GetRect api sys of (ok, rect) \<Rightarrow> if ok then Some rect else None))"

definition window_moved ::
  "build \<Rightarrow> os \<Rightarrow> vout_display_sys_win32_t \<Rightarrow> RECT
     \<Rightarrow> RECT \<times> POINT \<times> bool \<times> vout_display_sys_win32_t \<times> win_call list" where
  \<comment> \<open>"If nothing changed, we can return": \<open>rect\<close>, \<open>point\<close> and \<open>moved_or_resized\<close> after the block,
      with the state and the calls made\<close>
  "window_moved B api sys rect =
     (let point = \<lparr>pt_x = 0, pt_y = 0\<rparr> in
      if VLC_WINSTORE_APP B then
        (rect, point,
         RECTWidth rect \<noteq> RECTWidth (rect_display sys) \<or> RECTHeight rect \<noteq> RECTHeight (rect_display sys),
         sys\<lparr>rect_display := rect\<rparr>, [])
      else if b_windowless sys then (rect, point, False, sys, [])
      else
        (let point' = ClientToScreen api (hwnd sys) point;
             rect' = OffsetRect rect (pt_x point') (pt_y point')
         in (rect', point', EventThreadUpdateWindowPosition api rect', sys,
             [Call_EventThreadUpdateWindowPosition rect'])))"

definition UpdateRects ::
  "build \<Rightarrow> os \<Rightarrow> video_format_t \<Rightarrow> vout_display_sys_win32_t \<Rightarrow> bool
     \<Rightarrow> vout_display_sys_win32_t \<times> win_call list" where
  "UpdateRects B api source sys is_forced =
     (case window_size api source sys of
        None \<Rightarrow> (sys, [])
      | Some rect0 \<Rightarrow>
          (case window_moved B api sys rect0 of
             (rect, point, moved_or_resized, sys1, calls1) \<Rightarrow>
               if \<not> is_forced \<and> \<not> moved_or_resized then (sys1, calls1)
               else
                 (let cfg = vdcfg sys1;
                      place_cfg0 = cfg\<lparr>display_width := RECTWidth rect, display_height := RECTHeight rect\<rparr>;
                      place_cfg =
                        (if MODULE_NAME_IS_glwin32 B then
                           (if align_vertical place_cfg0 = VLC_VIDEO_ALIGN_TOP
                            then place_cfg0\<lparr>align_vertical := VLC_VIDEO_ALIGN_BOTTOM\<rparr>
                            else if align_vertical place_cfg0 = VLC_VIDEO_ALIGN_BOTTOM
                            then place_cfg0\<lparr>align_vertical := VLC_VIDEO_ALIGN_TOP\<rparr>
                            else place_cfg0)
                         else place_cfg0);
                      place = vout_display_PlacePicture api source place_cfg;
                      placed = (\<not> VLC_WINSTORE_APP B \<and> \<not> b_windowless sys1);
                      swpFlags = {SWP_NOCOPYBITS, SWP_NOZORDER, SWP_ASYNCWINDOWPOS}
                        \<union> (if is_first_placement sys1 then {SWP_SHOWWINDOW} else {});
                      calls2 =
                        (if placed then
                           [Call_EventThreadUpdateSourceAndPlace source place,
                            SetWindowPos (hvideownd sys1) HWND_0 (place_x place) (place_y place)
                              (place_width place) (place_height place) swpFlags]
                         else []);
                      sys2 = (if placed then sys1\<lparr>is_first_placement := False\<rparr> else sys1);
                      before_rect_dest = rect_dest sys2;
                      new_rect_dest =
                        (if MODULE_NAME_IS_direct3d11 B \<and> \<not> VLC_WINSTORE_APP B then
                           \<lparr>r_left = 0, r_top = 0, r_right = place_width place, r_bottom = place_height place\<rparr>
                         else
                           \<lparr>r_left = pt_x point + place_x place,
                            r_top = pt_y point + place_y place,
                            r_right = pt_x point + place_x place + place_width place,
                            r_bottom = pt_y point + place_y place + place_height place\<rparr>);
                      sys3 = sys2\<lparr>rect_dest := new_rect_dest,
                                  rect_dest_changed :=
                                    (rect_dest_changed sys2 \<or> \<not> EqualRect before_rect_dest new_rect_dest)\<rparr>;
                      calls3 = (if \<not> VLC_WINSTORE_APP B then [Call_CommonChangeThumbnailClip True] else [])
                  in (sys3, calls1 @ calls2 @ calls3))))"


subsection \<open>Fullscreen and the control requests\<close>

definition CommonControlSetFullscreen ::
  "build \<Rightarrow> os \<Rightarrow> vout_display_sys_win32_t \<Rightarrow> bool \<Rightarrow> vlc_result \<times> win_call list" where
  \<comment> \<open>compiled when \<^verbatim>\<open>VLC_WINSTORE_APP\<close> is 0; \<open>wnd\<close> is the local \<open>hwnd\<close> of the source\<close>
  "CommonControlSetFullscreen B api sys fullscreen =
     (if MODULE_NAME_IS_direct3d9 B \<and> use_desktop sys \<and> fullscreen then (VLC_EGENERIC, [])
      else if parent_window sys \<noteq> None then (VLC_EGENERIC, [])
      else if b_windowless sys then (VLC_SUCCESS, [])
      else
        (let wnd = (if hparent sys \<noteq> None \<and> hfswnd sys \<noteq> None then hfswnd sys else hwnd sys);
             window_placement = GetWindowPlacement api wnd
         in if fullscreen then
              (VLC_SUCCESS,
               [SetWindowLong_STYLE wnd {WS_CLIPCHILDREN, WS_VISIBLE}]
               @ (if hparent sys \<noteq> None then
                    (case GetMonitorInfo api (hparent sys) of
                       (ok, rcMonitor) \<Rightarrow>
                         if ok then
                           [SetWindowPos wnd HWND_0 (r_left rcMonitor) (r_top rcMonitor)
                              (RECTWidth rcMonitor) (RECTHeight rcMonitor) {SWP_NOZORDER, SWP_FRAMECHANGED}]
                         else [])
                  else [ShowWindow wnd SW_SHOWMAXIMIZED])
               @ (if hparent sys \<noteq> None then
                    (let rect = snd (GetClientRect api wnd) in
                     [SetParent (hwnd sys) wnd,
                      SetWindowPos (hwnd sys) HWND_0 0 0 (r_right rect) (r_bottom rect)
                        {SWP_NOZORDER, SWP_FRAMECHANGED},
                      ShowWindow (GetAncestor api (hparent sys)) SW_HIDE])
                  else [])
               @ [SetForegroundWindow wnd])
            else
              (VLC_SUCCESS,
               [SetWindowLong_STYLE wnd (EventThreadGetWindowStyle api)]
               @ (if hparent sys \<noteq> None then
                    (let rect = snd (GetClientRect api (hparent sys)) in
                     [SetParent (hwnd sys) (hparent sys),
                      SetWindowPos (hwnd sys) HWND_0 0 0 (r_right rect) (r_bottom rect)
                        {SWP_NOZORDER, SWP_FRAMECHANGED},
                      ShowWindow (GetAncestor api (hparent sys)) SW_SHOW,
                      SetForegroundWindow (hparent sys),
                      ShowWindow wnd SW_HIDE])
                  else
                    [SetWindowPlacement wnd window_placement,
                     ShowWindow wnd SW_SHOWNORMAL]))))"

text \<open>
  A request is the \<open>query\<close> with the argument read from the \<^verbatim>\<open>va_list\<close>. For
  \<^verbatim>\<open>VOUT_DISPLAY_CHANGE_WINDOW_STATE\<close> the argument is given as the value of
  \<^verbatim>\<open>(state & VOUT_WINDOW_STATE_ABOVE) != 0\<close>.
\<close>

datatype query =
  VOUT_DISPLAY_CHANGE_DISPLAY_FILLED vout_display_cfg_t
  | VOUT_DISPLAY_CHANGE_ZOOM vout_display_cfg_t
  | VOUT_DISPLAY_CHANGE_SOURCE_ASPECT vout_display_cfg_t
  | VOUT_DISPLAY_CHANGE_SOURCE_CROP vout_display_cfg_t
  | VOUT_DISPLAY_CHANGE_DISPLAY_SIZE vout_display_cfg_t
  | VOUT_DISPLAY_CHANGE_WINDOW_STATE bool
  | VOUT_DISPLAY_CHANGE_FULLSCREEN bool
  | VOUT_DISPLAY_RESET_PICTURES
  | VOUT_DISPLAY_OTHER nat

definition change_cfg ::
  "build \<Rightarrow> os \<Rightarrow> video_format_t \<Rightarrow> vout_display_sys_win32_t \<Rightarrow> vout_display_cfg_t
     \<Rightarrow> error + (vlc_result \<times> vout_display_sys_win32_t \<times> win_call list)" where
  \<comment> \<open>the first four cases: \<^verbatim>\<open>sys->vdcfg = *cfg; UpdateRects(vd, sys, true); return VLC_SUCCESS;\<close>\<close>
  "change_cfg B api source sys cfg =
     (case UpdateRects B api source (sys\<lparr>vdcfg := cfg\<rparr>) True of
        (sys', calls) \<Rightarrow> Inr (VLC_SUCCESS, sys', calls))"

fun CommonControl ::
  "build \<Rightarrow> os \<Rightarrow> video_format_t \<Rightarrow> vout_display_sys_win32_t \<Rightarrow> query
     \<Rightarrow> error + (vlc_result \<times> vout_display_sys_win32_t \<times> win_call list)" where
  "CommonControl B api source sys (VOUT_DISPLAY_CHANGE_DISPLAY_FILLED cfg) = change_cfg B api source sys cfg"
| "CommonControl B api source sys (VOUT_DISPLAY_CHANGE_ZOOM cfg) = change_cfg B api source sys cfg"
| "CommonControl B api source sys (VOUT_DISPLAY_CHANGE_SOURCE_ASPECT cfg) = change_cfg B api source sys cfg"
| "CommonControl B api source sys (VOUT_DISPLAY_CHANGE_SOURCE_CROP cfg) = change_cfg B api source sys cfg"
| "CommonControl B api source sys (VOUT_DISPLAY_CHANGE_DISPLAY_SIZE cfg) =
     (if VLC_WINSTORE_APP B then Inr (VLC_EGENERIC, sys, [])
      else
        (let rect_window = \<lparr>r_left = 0, r_top = 0, r_right = display_width cfg, r_bottom = display_height cfg\<rparr>;
             calls0 =
               (if \<not> is_fullscreen cfg \<and> \<not> b_windowless sys then
                  (let rect_window' = AdjustWindowRect api rect_window (EventThreadGetWindowStyle api) in
                   [SetWindowPos (hwnd sys) HWND_0 0 0 (RECTWidth rect_window') (RECTHeight rect_window')
                      {SWP_NOMOVE}])
                else [])
         in case UpdateRects B api source (sys\<lparr>vdcfg := cfg\<rparr>) False of
              (sys', calls) \<Rightarrow> Inr (VLC_SUCCESS, sys', calls0 @ calls)))"
| "CommonControl B api source sys (VOUT_DISPLAY_CHANGE_WINDOW_STATE on_top) =
     (if VLC_WINSTORE_APP B then Inr (VLC_EGENERIC, sys, [])
      else if MODULE_NAME_IS_direct3d9 B \<and> use_desktop sys \<and> on_top then Inr (VLC_EGENERIC, sys, [])
      else
        (let calls =
               (if on_top \<and> \<not> is_WS_EX_TOPMOST api (hwnd sys) then
                  [CheckMenuItem (hwnd sys) True,
                   SetWindowPos (hwnd sys) HWND_TOPMOST 0 0 0 0 {SWP_NOSIZE, SWP_NOMOVE}]
                else if \<not> on_top \<and> is_WS_EX_TOPMOST api (hwnd sys) then
                  [CheckMenuItem (hwnd sys) False,
                   SetWindowPos (hwnd sys) HWND_NOTOPMOST 0 0 0 0 {SWP_NOSIZE, SWP_NOMOVE}]
                else [])
         in Inr (VLC_SUCCESS, sys\<lparr>is_on_top := on_top\<rparr>, calls)))"
| "CommonControl B api source sys (VOUT_DISPLAY_CHANGE_FULLSCREEN fs) =
     (if VLC_WINSTORE_APP B then Inr (VLC_EGENERIC, sys, [])
      else
        (case CommonControlSetFullscreen B api sys fs of
           (res, calls0) \<Rightarrow>
             if res \<noteq> VLC_SUCCESS then Inr (VLC_EGENERIC, sys, calls0)
             else
               (case UpdateRects B api source sys False of
                  (sys', calls) \<Rightarrow> Inr (VLC_SUCCESS, sys', calls0 @ calls))))"
| "CommonControl B api source sys VOUT_DISPLAY_RESET_PICTURES =
     (if VLC_WINSTORE_APP B then Inr (VLC_EGENERIC, sys, []) else Inl Unreachable)"
| "CommonControl B api source sys (VOUT_DISPLAY_OTHER q) = Inr (VLC_EGENERIC, sys, [])"


section \<open>Instances of the parameters\<close>

text \<open>
  The theorems below hold for every list cache, every subclass and every answer of the
  operating system. To evaluate the model on concrete states, here is one instance of each:
  a cache that keeps its two counts and the items at hand, with \<open>- 1\<close> as the sentinel of an
  uninitialized count.
\<close>

record example_cache =
  ec_queryCount :: int
  ec_maximumCount :: int
  ec_items :: "MLItem list"

definition example_ListCache :: "example_cache ListCache" where
  "example_ListCache =
     \<lparr>COUNT_UNINITIALIZED = - 1,
      newCache = (\<lambda>loader b limit offset. \<lparr>ec_queryCount = - 1, ec_maximumCount = - 1, ec_items = []\<rparr>),
      initCount = (\<lambda>c. c),
      queryCount = ec_queryCount,
      maximumCount = ec_maximumCount,
      find_item = (\<lambda>c p. case List.find p (ec_items c) of None \<Rightarrow> None | Some item \<Rightarrow> Some (item, 0)),
      updateItem = (\<lambda>item c. c\<lparr>ec_items := map (\<lambda>i. if getId i = getId item then item else i) (ec_items c)\<rparr>),
      deleteItem = (\<lambda>p c. c\<lparr>ec_items := filter (\<lambda>i. \<not> p i) (ec_items c)\<rparr>),
      moveRange = (\<lambda>first lst to c. c),
      deleteRange = (\<lambda>first lst c. c),
      invalidate = (\<lambda>c. c\<lparr>ec_queryCount := - 1, ec_maximumCount := - 1\<rparr>)\<rparr>"

definition example_virtuals :: "example_cache MLBaseModel_virtuals" where
  "example_virtuals =
     \<lparr>createLoader = (\<lambda>st. \<lparr>m_medialib = 1,
                              m_op = MLOp_new (m_parent st) (m_search_pattern st) (m_sort st) (m_sort_desc st)\<rparr>),
      cachable = (\<lambda>st. m_mediaLib st \<noteq> None),
      nameToCriteria = (\<lambda>name. length (QString_chars name)),
      roleNames = [(0, ''id'')],
      itemRoleData = (\<lambda>item role. item_contents item)\<rparr>"

definition example_model :: "example_cache MLBaseModel" where
  "example_model =
     \<lparr>m_mediaLib = Some 1, m_cache = None, m_itemLoader = None, m_parent = (0, 0),
      m_search_pattern = None, m_sort = 0, m_sort_desc = False, m_limit = 0, m_offset = 0,
      shared = []\<rparr>"

definition example_counted :: "int \<Rightarrow> int \<Rightarrow> example_cache MLBaseModel" where
  \<comment> \<open>the example model with a cache that holds the two counts given\<close>
  "example_counted n m =
     example_model\<lparr>m_cache := Some \<lparr>ec_queryCount = n, ec_maximumCount = m, ec_items = []\<rparr>\<rparr>"


definition example_loaded :: "example_cache MLBaseModel" where
  \<comment> \<open>the example model with a cache that holds one item, of id \<open>(3, 0)\<close>\<close>
  "example_loaded =
     example_model\<lparr>m_cache := Some \<lparr>ec_queryCount = 1, ec_maximumCount = 1,
                                    ec_items = [\<lparr>getId = (3, 0), item_contents = ''old''\<rparr>]\<rparr>\<rparr>"


text \<open>
  For the window: the two platforms, the direct3d9 module, a window whose client area is
  800 by 600 at the screen position (100, 50), where the event thread saw it last, and a
  picture placed so as to fill the display.
\<close>

definition desktop_build :: build where
  "desktop_build =
     \<lparr>VLC_WINSTORE_APP = False, MODULE_NAME_IS_direct3d9 = False,
      MODULE_NAME_IS_direct3d11 = False, MODULE_NAME_IS_glwin32 = False\<rparr>"

definition winstore_build :: build where
  "winstore_build = desktop_build\<lparr>VLC_WINSTORE_APP := True, MODULE_NAME_IS_direct3d11 := True\<rparr>"

definition direct3d9_build :: build where
  "direct3d9_build = desktop_build\<lparr>MODULE_NAME_IS_direct3d9 := True\<rparr>"

definition zero_rect :: RECT where
  "zero_rect = \<lparr>r_left = 0, r_top = 0, r_right = 0, r_bottom = 0\<rparr>"

definition example_os :: os where
  "example_os =
     \<lparr>pf_GetRect = (\<lambda>sys. (True, \<lparr>r_left = 0, r_top = 0, r_right = 800, r_bottom = 600\<rparr>)),
      GetClientRect = (\<lambda>h. (True, \<lparr>r_left = 0, r_top = 0, r_right = 800, r_bottom = 600\<rparr>)),
      ClientToScreen = (\<lambda>h p. \<lparr>pt_x = pt_x p + 100, pt_y = pt_y p + 50\<rparr>),
      EventThreadUpdateWindowPosition =
        (\<lambda>r. \<not> EqualRect r \<lparr>r_left = 100, r_top = 50, r_right = 900, r_bottom = 650\<rparr>),
      EventThreadGetWindowStyle = {WS_VISIBLE, WS_OTHER 0},
      vout_display_PlacePicture =
        (\<lambda>source cfg. \<lparr>place_x = 0, place_y = 0, place_width = display_width cfg,
                        place_height = display_height cfg\<rparr>),
      GetWindowPlacement = (\<lambda>h. 0),
      GetMonitorInfo = (\<lambda>h. (True, \<lparr>r_left = 0, r_top = 0, r_right = 1920, r_bottom = 1080\<rparr>)),
      GetAncestor = (\<lambda>h. h),
      AdjustWindowRect = (\<lambda>r style. r),
      is_WS_EX_TOPMOST = (\<lambda>h. False)\<rparr>"

definition example_source :: video_format_t where
  "example_source = \<lparr>i_visible_width = 640, i_visible_height = 480\<rparr>"

definition example_sys :: vout_display_sys_win32_t where
  "example_sys =
     \<lparr>hwnd = Some 1, hvideownd = Some 2, hparent = None, hfswnd = None, parent_window = None,
      event = Some 1, rect_parent = zero_rect, rect_display = zero_rect, rect_dest = zero_rect,
      rect_dest_changed = False, b_windowless = False, is_first_placement = True,
      is_on_top = False, use_desktop = False,
      vdcfg = \<lparr>display_width = 800, display_height = 600, align_vertical = VLC_VIDEO_ALIGN_CENTER,
               is_fullscreen = False\<rparr>\<rparr>"

section \<open>Theorems\<close>

subsection \<open>Loading one item by its id\<close>

text \<open>
  C7. For every load-by-id request, \<open>loadItemByIdTask\<close> calls its callback if and only if the
  lookup in the media library gave a non-null item, and then once, with the task id and that
  item; when the item fails to load the callback is never called. The callback of the load by
  a set of rows, in contrast, is always called, with the whole vector, null slots included.
\<close>

theorem loadItemByIdTask_callback:
  "(loadItemByIdTask loadItemById itemId taskId \<noteq> []) = (loadItemById itemId \<noteq> None)
   \<and> loadItemByIdTask loadItemById itemId taskId =
       (case loadItemById itemId of None \<Rightarrow> [] | Some item \<Rightarrow> [(taskId, item)])
   \<and> loadItemsTask_done taskId' items = [(taskId', items)]"
  by (simp add: loadItemByIdTask_def runOnMLThread_def loadItemByIdTask_work_def
      loadItemByIdTask_done_def loadItemsTask_done_def split: option.split)

subsection \<open>Row count and counts\<close>

text \<open>
  C2. \<open>rowCount\<close> is to be non-negative in every model state. In the state right after
  \<open>validateCache\<close> has made the cache, the count of the query is still the sentinel
  \<^verbatim>\<open>COUNT_UNINITIALIZED\<close>: \<open>getCount\<close> answers 0 there, and \<open>rowCount\<close>, which does not look for
  the sentinel, returns it: a negative number of rows.
\<close>

theorem rowCount_uninitialized:
  "m_cache (fst (validateCache example_virtuals example_ListCache example_model))
     = Some \<lparr>ec_queryCount = - 1, ec_maximumCount = - 1, ec_items = []\<rparr>
   \<and> rowCount example_ListCache (fst (validateCache example_virtuals example_ListCache example_model))
       \<lparr>isValid = False, row = - 1\<rparr> = - 1
   \<and> getCount example_ListCache (fst (validateCache example_virtuals example_ListCache example_model)) = 0"
  by (simp add: validateCache_def example_virtuals_def example_ListCache_def example_model_def
      rowCount_def getCount_def int_of_ssize_t_def Let_def)

text \<open>
  C10. In every model state \<open>getCount\<close> and \<open>getMaximumCount\<close> return 0 when the cache is absent
  or the count is the sentinel \<^verbatim>\<open>COUNT_UNINITIALIZED\<close>, and otherwise the count of the cache,
  converted to \<^verbatim>\<open>unsigned\<close>: the count itself when it is non-negative and below \<open>2 ^ 32\<close>. The
  sentinel, a negative number, is never returned. \<open>loading\<close> is true exactly when the media
  library is unset, the cache is absent, or the count of the query is the sentinel.
\<close>

theorem counts_hide_sentinel:
  "(m_cache st = None \<longrightarrow> getCount C st = 0 \<and> getMaximumCount C st = 0)
   \<and> (\<forall>cache. m_cache st = Some cache \<longrightarrow>
         (queryCount C cache = COUNT_UNINITIALIZED C \<longrightarrow> getCount C st = 0)
       \<and> (maximumCount C cache = COUNT_UNINITIALIZED C \<longrightarrow> getMaximumCount C st = 0)
       \<and> (queryCount C cache \<noteq> COUNT_UNINITIALIZED C \<longrightarrow>
            getCount C st = word_of_int (queryCount C cache)
            \<and> (0 \<le> queryCount C cache \<and> queryCount C cache < 2 ^ 32 \<longrightarrow>
                 uint (getCount C st) = queryCount C cache))
       \<and> (maximumCount C cache \<noteq> COUNT_UNINITIALIZED C \<longrightarrow>
            getMaximumCount C st = word_of_int (maximumCount C cache)
            \<and> (0 \<le> maximumCount C cache \<and> maximumCount C cache < 2 ^ 32 \<longrightarrow>
                 uint (getMaximumCount C st) = maximumCount C cache)))
   \<and> (COUNT_UNINITIALIZED C < 0 \<longrightarrow>
         uint (getCount C st) \<noteq> COUNT_UNINITIALIZED C
         \<and> uint (getMaximumCount C st) \<noteq> COUNT_UNINITIALIZED C)
   \<and> loading C st =
       (m_mediaLib st = None \<or> m_cache st = None
        \<or> (\<exists>cache. m_cache st = Some cache \<and> queryCount C cache = COUNT_UNINITIALIZED C))"
proof -
  have in_range: "uint (word_of_int n :: 32 word) = n" if "0 \<le> n" "n < 2 ^ 32" for n :: int
    using that by (simp add: uint_word_of_int take_bit_eq_mod)
  have nonneg: "uint (w :: 32 word) \<noteq> n" if "n < 0" for w n
    using that uint_ge_0 [of w] by linarith
  show ?thesis
    by (auto simp: getCount_def getMaximumCount_def loading_def in_range nonneg split: option.splits)
qed

theorem counts_hide_sentinel_witness:
  "uint (getCount example_ListCache (example_counted 5 (- 1))) = 5
   \<and> getMaximumCount example_ListCache (example_counted 5 (- 1)) = 0
   \<and> uint (getCount example_ListCache (example_counted 5 (- 1))) \<noteq> - 1
   \<and> \<not> loading example_ListCache (example_counted 5 (- 1))"
proof -
  let ?st = "example_counted 5 (- 1)"
  let ?cache = "\<lparr>ec_queryCount = 5, ec_maximumCount = - 1, ec_items = []\<rparr>"
  have cache: "m_cache ?st = Some ?cache" and ml: "m_mediaLib ?st \<noteq> None"
    by (simp_all add: example_counted_def example_model_def)
  have counts: "queryCount example_ListCache ?cache = 5" "maximumCount example_ListCache ?cache = - 1"
    and sentinel: "COUNT_UNINITIALIZED example_ListCache = - 1"
    by (simp_all add: example_ListCache_def)
  show ?thesis
    using counts_hide_sentinel [of ?st example_ListCache] cache ml counts sentinel by simp
qed


subsection \<open>Setting a property to the value it has\<close>

lemma validateCache_fields:
  "m_sort_desc (fst (validateCache V C st)) = m_sort_desc st"
  "m_sort (fst (validateCache V C st)) = m_sort st"
  "m_search_pattern (fst (validateCache V C st)) = m_search_pattern st"
  "m_limit (fst (validateCache V C st)) = m_limit st"
  "m_offset (fst (validateCache V C st)) = m_offset st"
  "m_parent (fst (validateCache V C st)) = m_parent st"
  by (simp_all add: validateCache_def Let_def)

lemma resetCache_fields:
  "m_sort_desc (fst (resetCache V C st)) = m_sort_desc st"
  "m_sort (fst (resetCache V C st)) = m_sort st"
  "m_search_pattern (fst (resetCache V C st)) = m_search_pattern st"
  "m_limit (fst (resetCache V C st)) = m_limit st"
  "m_offset (fst (resetCache V C st)) = m_offset st"
  "m_parent (fst (resetCache V C st)) = m_parent st"
  using validateCache_fields [of V C "st\<lparr>m_cache := None\<rparr>"]
  by (simp_all add: resetCache_def case_prod_beta)

lemma resetCache_events:
  "snd (resetCache V C st) =
     [BeginResetModel, EndResetModel] @ (if cachable V (st\<lparr>m_cache := None\<rparr>) then [Emit loadingChanged] else [])"
  by (simp add: resetCache_def validateCache_def Let_def case_prod_beta)

lemma resetCache_cache:
  "m_cache (fst (resetCache V C st)) =
     (if cachable V (st\<lparr>m_cache := None\<rparr>)
      then Some (initCount C (newCache C (createLoader V (st\<lparr>m_cache := None\<rparr>)) False (m_limit st) (m_offset st)))
      else None)"
  by (simp add: resetCache_def validateCache_def Let_def case_prod_beta)

lemma setSortOrder_same: "m_sort_desc st = (order = DescendingOrder) \<Longrightarrow> setSortOrder V C order st = (st, [])"
  by (simp add: setSortOrder_def)

lemma setSortOrder_twice:
  "setSortOrder V C order (fst (setSortOrder V C order st)) = (fst (setSortOrder V C order st), [])"
proof (rule setSortOrder_same)
  show "m_sort_desc (fst (setSortOrder V C order st)) = (order = DescendingOrder)"
    using resetCache_fields(1) [of V C "st\<lparr>m_sort_desc := (order = DescendingOrder)\<rparr>"]
    by (simp add: setSortOrder_def Let_def case_prod_beta)
qed

lemma setSortCriteria_same: "m_sort st = nameToCriteria V criteria \<Longrightarrow> setSortCriteria V C criteria st = (st, [])"
  by (simp add: setSortCriteria_def)

lemma setSortCriteria_twice:
  "setSortCriteria V C criteria (fst (setSortCriteria V C criteria st)) = (fst (setSortCriteria V C criteria st), [])"
proof (rule setSortCriteria_same)
  show "m_sort (fst (setSortCriteria V C criteria st)) = nameToCriteria V criteria"
    using resetCache_fields(2) [of V C "st\<lparr>m_sort := nameToCriteria V criteria\<rparr>"]
    by (simp add: setSortCriteria_def Let_def case_prod_beta)
qed

lemma setLimit_same: "m_limit st = limit \<Longrightarrow> setLimit V C limit st = (st, [])"
  by (simp add: setLimit_def)

lemma setLimit_twice:
  "setLimit V C limit (fst (setLimit V C limit st)) = (fst (setLimit V C limit st), [])"
proof (rule setLimit_same)
  show "m_limit (fst (setLimit V C limit st)) = limit"
    using resetCache_fields(4) [of V C "st\<lparr>m_limit := limit\<rparr>"]
    by (simp add: setLimit_def case_prod_beta)
qed

lemma setOffset_same: "m_offset st = offset \<Longrightarrow> setOffset V C offset st = (st, [])"
  by (simp add: setOffset_def)

lemma setOffset_twice:
  "setOffset V C offset (fst (setOffset V C offset st)) = (fst (setOffset V C offset st), [])"
proof (rule setOffset_same)
  show "m_offset (fst (setOffset V C offset st)) = offset"
    using resetCache_fields(5) [of V C "st\<lparr>m_offset := offset\<rparr>"]
    by (simp add: setOffset_def case_prod_beta)
qed

lemma patternToApply_eq:
  "QString_eq (if QString_length pattern = 0 then None else pattern) s = QString_eq pattern s"
  by (simp add: QString_eq_def QString_length_def QString_chars_def split: option.split)

lemma setSearchPattern_same:
  "QString_eq pattern (m_search_pattern st) \<Longrightarrow> setSearchPattern V C pattern st = (st, [])"
  by (simp add: setSearchPattern_def patternToApply_eq)

lemma setSearchPattern_stored:
  "QString_eq pattern (m_search_pattern (fst (setSearchPattern V C pattern st)))"
  using resetCache_fields(3) [of V C "st\<lparr>m_search_pattern := (if QString_length pattern = 0 then None else pattern)\<rparr>"]
  by (auto simp: setSearchPattern_def patternToApply_eq Let_def QString_eq_def QString_length_def
      QString_chars_def split: option.splits)

lemma setSearchPattern_twice:
  "setSearchPattern V C pattern (fst (setSearchPattern V C pattern st)) = (fst (setSearchPattern V C pattern st), [])"
  by (rule setSearchPattern_same) (rule setSearchPattern_stored)

lemma setParentId_result:
  "setParentId V C parentId st = (fst (resetCache V C (st\<lparr>m_parent := parentId\<rparr>)),
     snd (resetCache V C (st\<lparr>m_parent := parentId\<rparr>)) @ [Emit parentIdChanged])"
  by (simp add: setParentId_def case_prod_beta)

text \<open>
  C9. \<open>setSortOrder\<close>, \<open>setSortCriteria\<close>, \<open>setSearchPattern\<close>, \<open>setLimit\<close> and \<open>setOffset\<close>, called
  with a value equal to the stored one, leave the model as it is and emit nothing: no reset of
  the cache, no change signal. Hence a second call with the same argument is the identity.
  \<open>setParentId\<close>, called with the stored parent id, still resets the model (the cache is
  dropped and, if the model is cachable, made anew) and emits \<open>parentIdChanged\<close>.
\<close>

theorem setters_same_value:
  "(m_sort_desc st = (order = DescendingOrder) \<longrightarrow> setSortOrder V C order st = (st, []))
   \<and> (m_sort st = nameToCriteria V criteria \<longrightarrow> setSortCriteria V C criteria st = (st, []))
   \<and> (QString_eq pattern (m_search_pattern st) \<longrightarrow> setSearchPattern V C pattern st = (st, []))
   \<and> (m_limit st = limit \<longrightarrow> setLimit V C limit st = (st, []))
   \<and> (m_offset st = offset \<longrightarrow> setOffset V C offset st = (st, []))
   \<and> setSortOrder V C order (fst (setSortOrder V C order st)) = (fst (setSortOrder V C order st), [])
   \<and> setSortCriteria V C criteria (fst (setSortCriteria V C criteria st))
       = (fst (setSortCriteria V C criteria st), [])
   \<and> setSearchPattern V C pattern (fst (setSearchPattern V C pattern st))
       = (fst (setSearchPattern V C pattern st), [])
   \<and> setLimit V C limit (fst (setLimit V C limit st)) = (fst (setLimit V C limit st), [])
   \<and> setOffset V C offset (fst (setOffset V C offset st)) = (fst (setOffset V C offset st), [])
   \<and> snd (setParentId V C (m_parent st) st) =
       [BeginResetModel, EndResetModel]
       @ (if cachable V (st\<lparr>m_cache := None\<rparr>) then [Emit loadingChanged] else [])
       @ [Emit parentIdChanged]
   \<and> m_cache (fst (setParentId V C (m_parent st) st)) =
       (if cachable V (st\<lparr>m_cache := None\<rparr>)
        then Some (initCount C (newCache C (createLoader V (st\<lparr>m_cache := None\<rparr>)) False
                     (m_limit st) (m_offset st)))
        else None)"
  by (simp add: setSortOrder_same setSortCriteria_same setSearchPattern_same setLimit_same
      setOffset_same setSortOrder_twice setSortCriteria_twice setSearchPattern_twice
      setLimit_twice setOffset_twice setParentId_result resetCache_events resetCache_cache)

theorem setters_same_value_witness:
  "setSortOrder example_virtuals example_ListCache AscendingOrder (example_counted 5 5)
     = (example_counted 5 5, [])
   \<and> setSortCriteria example_virtuals example_ListCache None (example_counted 5 5)
     = (example_counted 5 5, [])
   \<and> setSearchPattern example_virtuals example_ListCache (Some []) (example_counted 5 5)
     = (example_counted 5 5, [])
   \<and> setLimit example_virtuals example_ListCache 0 (example_counted 5 5) = (example_counted 5 5, [])
   \<and> setOffset example_virtuals example_ListCache 0 (example_counted 5 5) = (example_counted 5 5, [])
   \<and> snd (setParentId example_virtuals example_ListCache (0, 0) (example_counted 5 5))
     = [BeginResetModel, EndResetModel, Emit loadingChanged, Emit parentIdChanged]
   \<and> m_cache (fst (setParentId example_virtuals example_ListCache (0, 0) (example_counted 5 5)))
     = Some \<lparr>ec_queryCount = - 1, ec_maximumCount = - 1, ec_items = []\<rparr>"
proof -
  let ?st = "example_counted 5 5"
  have stored: "m_sort_desc ?st = (AscendingOrder = DescendingOrder)"
    "m_sort ?st = nameToCriteria example_virtuals None"
    "QString_eq (Some []) (m_search_pattern ?st)"
    "m_limit ?st = 0" "m_offset ?st = 0" "m_parent ?st = (0, 0)"
    by (simp_all add: example_counted_def example_model_def example_virtuals_def QString_eq_def
        QString_chars_def)
  have made: "cachable example_virtuals (?st\<lparr>m_cache := None\<rparr>)"
    "initCount example_ListCache (newCache example_ListCache loader False l off)
       = \<lparr>ec_queryCount = - 1, ec_maximumCount = - 1, ec_items = []\<rparr>" for loader l off
    by (simp_all add: example_counted_def example_model_def example_virtuals_def example_ListCache_def)
  show ?thesis
    using setters_same_value [where st = ?st and V = example_virtuals and C = example_ListCache
        and order = AscendingOrder and criteria = None and pattern = "Some []" and limit = 0
        and offset = 0] stored made
    by simp
qed


subsection \<open>The search pattern and the query parameters\<close>

lemma setSearchPattern_pattern:
  "m_search_pattern (fst (setSearchPattern V C pattern st)) =
     (if QString_eq pattern (m_search_pattern st) then m_search_pattern st
      else if QString_length pattern = 0 then None else pattern)"
  by (simp add: setSearchPattern_def patternToApply_eq Let_def resetCache_fields)

lemma unat_ucast_size_t: "unat (ucast (w :: 64 word) :: 32 word) = unat w mod 2 ^ 32"
  by (simp add: unsigned_ucast_eq take_bit_eq_mod)

text \<open>
  C8, as stated, says that \<open>i_nbResults\<close> and \<open>i_offset\<close> equal the limit and the offset asked
  for. The two arguments of \<open>getQueryParams\<close> are \<^verbatim>\<open>size_t\<close> values and the two fields are
  \<^verbatim>\<open>uint32_t\<close>: a limit or an offset of \<open>2\<^sup>3\<^sup>2\<close> or more is cut to its low 32 bits. The limit
  4294967297 and the offset 4294967298 reach the engine as 1 and 2.
\<close>

theorem getQueryParams_narrows:
  "unat (i_nbResults (getQueryParams (MLOp_new (0, 0) None 0 False) 4294967298 4294967297)) = 1
   \<and> unat (i_offset (getQueryParams (MLOp_new (0, 0) None 0 False) 4294967298 4294967297)) = 2"
  by (simp add: getQueryParams_def unat_ucast_size_t)

text \<open>
  C8, amended. A stored search pattern is null or non-empty: \<open>setSearchPattern\<close> keeps it so, and
  the model starts with the null pattern. In such a state \<open>setSearchPattern\<close>, given a pattern of
  length zero, stores the null string, and an \<open>MLOp\<close> made from the stored pattern gives query
  parameters with a null \<open>psz_pattern\<close>. In general \<open>getQueryParams\<close> gives a null \<open>psz_pattern\<close>
  exactly when the pattern stored in the \<open>MLOp\<close> is null; \<open>i_nbResults\<close> and \<open>i_offset\<close> are the
  limit and the offset asked for, converted to 32 bits, so that they equal the limit and the
  offset when these are below \<open>2\<^sup>3\<^sup>2\<close> and their remainders modulo \<open>2\<^sup>3\<^sup>2\<close> in general; \<open>i_sort\<close>
  and \<open>b_desc\<close> are the sort criteria and the descending flag of the \<open>MLOp\<close>.
\<close>

theorem search_pattern_null:
  "(m_search_pattern st \<noteq> Some [] \<longrightarrow> QString_length pattern = 0 \<longrightarrow>
      m_search_pattern (fst (setSearchPattern V C pattern st)) = None
      \<and> psz_pattern (getQueryParams
            (MLOp_new parentId (m_search_pattern (fst (setSearchPattern V C pattern st))) sort_c desc)
            offset limit) = None)
   \<and> (m_search_pattern st \<noteq> Some [] \<longrightarrow>
        m_search_pattern (fst (setSearchPattern V C pattern st)) \<noteq> Some [])
   \<and> (psz_pattern (getQueryParams mlop offset limit) = None) = (m_searchPattern mlop = None)
   \<and> psz_pattern (getQueryParams mlop offset limit) = m_searchPattern mlop
   \<and> (m_searchPattern (MLOp_new parentId searchPattern sort_c desc) = None) = (searchPattern = None)
   \<and> i_nbResults (getQueryParams mlop offset limit) = ucast limit
   \<and> i_offset (getQueryParams mlop offset limit) = ucast offset
   \<and> (unat limit < 2 ^ 32 \<longrightarrow> unat (i_nbResults (getQueryParams mlop offset limit)) = unat limit)
   \<and> (unat offset < 2 ^ 32 \<longrightarrow> unat (i_offset (getQueryParams mlop offset limit)) = unat offset)
   \<and> unat (i_nbResults (getQueryParams mlop offset limit)) = unat limit mod 2 ^ 32
   \<and> unat (i_offset (getQueryParams mlop offset limit)) = unat offset mod 2 ^ 32
   \<and> i_sort (getQueryParams mlop offset limit) = op_sort mlop
   \<and> b_desc (getQueryParams mlop offset limit) = m_sortDesc mlop
   \<and> i_sort (getQueryParams (MLOp_new parentId searchPattern sort_c desc) offset limit) = sort_c
   \<and> b_desc (getQueryParams (MLOp_new parentId searchPattern sort_c desc) offset limit) = desc"
  by (auto simp: setSearchPattern_pattern getQueryParams_def MLOp_new_def toUtf8_def
      QString_eq_def QString_length_def QString_chars_def unat_ucast_size_t split: option.splits)

theorem search_pattern_null_witness:
  "m_search_pattern (fst (setSearchPattern example_virtuals example_ListCache (Some [])
       ((example_counted 5 5)\<lparr>m_search_pattern := Some ''abc''\<rparr>))) = None
   \<and> psz_pattern (getQueryParams (MLOp_new (0, 0)
         (m_search_pattern (fst (setSearchPattern example_virtuals example_ListCache (Some [])
            ((example_counted 5 5)\<lparr>m_search_pattern := Some ''abc''\<rparr>)))) 3 True) 10 20) = None
   \<and> psz_pattern (getQueryParams (MLOp_new (0, 0) None 3 True) 10 20) = None
   \<and> unat (i_nbResults (getQueryParams (MLOp_new (0, 0) None 3 True) 10 20)) = 20
   \<and> unat (i_offset (getQueryParams (MLOp_new (0, 0) None 3 True) 10 20)) = 10"
proof -
  let ?st = "(example_counted 5 5)\<lparr>m_search_pattern := Some ''abc''\<rparr>"
  have stored: "m_search_pattern ?st \<noteq> Some []" "QString_length (Some []) = 0"
    by (simp_all add: QString_length_def QString_chars_def)
  have small: "unat (20 :: 64 word) < 2 ^ 32" "unat (10 :: 64 word) < 2 ^ 32"
    "unat (20 :: 64 word) = 20" "unat (10 :: 64 word) = 10"
    by simp_all
  have null: "m_searchPattern (MLOp_new (0, 0) None 3 True) = None"
    by (simp add: MLOp_new_def toUtf8_def)
  show ?thesis
    using search_pattern_null [where st = ?st and pattern = "Some []" and V = example_virtuals
        and C = example_ListCache and parentId = "(0, 0)" and sort_c = 3 and desc = True
        and offset = 10 and limit = 20 and mlop = "MLOp_new (0, 0) None 3 True"] stored small null
    by simp
qed

subsection \<open>getData and the task id\<close>

lemma loadItems_result:
  "loadItems V indexes cb taskId st =
     (taskId,
      st\<lparr>m_itemLoader := Some (case m_itemLoader st of None \<Rightarrow> createLoader V st | Some l \<Rightarrow> l)\<rparr>,
      [LoadItemsTask (case m_itemLoader st of None \<Rightarrow> createLoader V st | Some l \<Rightarrow> l) taskId indexes cb])"
  by (simp add: loadItems_def Let_def)

lemma getData_requestId:
  "isCallable callback \<Longrightarrow>
     shared (fst (getData V indexes callback taskId st)) ! length (shared st) = taskId"
  by (simp add: getData_def loadItems_result Let_def)

lemma getData_events:
  "isCallable callback \<Longrightarrow>
     snd (getData V indexes callback taskId st) =
       [LoadItemsTask (case m_itemLoader st of None \<Rightarrow> createLoader V (st\<lparr>shared := shared st @ [0]\<rparr>) | Some l \<Rightarrow> l)
          taskId (map row indexes)
          (GetDataCallback (length (shared st)) (int (length indexes)) callback)]"
  by (simp add: getData_def loadItems_result Let_def)

lemma getData_old_cells:
  "a < length (shared st) \<Longrightarrow> shared (fst (getData V indexes callback taskId st)) ! a = shared st ! a"
  by (simp add: getData_def loadItems_result Let_def nth_append)

text \<open>
  C3. If the callback given to \<open>getData\<close> is not callable, \<open>getData\<close> returns without a load
  request and without a change. If it is callable, \<open>getData\<close> issues one load request for the
  rows of the indexes, and the item callback it registers, called in the state \<open>getData\<close> leaves,
  calls the JavaScript callback only when a JavaScript engine is there and the task id delivered
  is the id the load request returned; a delivery with any other id is dropped. The id is kept
  in a shared cell of its own: \<open>getData\<close> leaves the cells of earlier calls as they are.
\<close>

theorem getData_callback_guard:
  "(\<not> isCallable callback \<longrightarrow> getData V indexes callback taskId st = (st, []))
   \<and> (isCallable callback \<longrightarrow>
        (\<exists>loader. snd (getData V indexes callback taskId st) =
           [LoadItemsTask loader taskId (map row indexes)
              (GetDataCallback (length (shared st)) (int (length indexes)) callback)])
        \<and> (\<forall>ident items jsEngine.
              ItemCallback_call V (GetDataCallback (length (shared st)) (int (length indexes)) callback)
                jsEngine (fst (getData V indexes callback taskId st)) ident items =
              (if \<not> jsEngine \<or> ident \<noteq> taskId then Inr []
               else if length items \<noteq> length indexes then Inl AssertionFailed
               else Inr [JSCall callback (map (dataDict_of V) items)])))
   \<and> (\<forall>a<length (shared st). shared (fst (getData V indexes callback taskId st)) ! a = shared st ! a)"
  by (auto simp: getData_requestId getData_events getData_old_cells) (simp add: getData_def)


theorem getData_callback_guard_witness:
  "getData example_virtuals [\<lparr>isValid = True, row = 2\<rparr>] \<lparr>isCallable = False, js_value = 0\<rparr> 7 example_model
     = (example_model, [])
   \<and> ItemCallback_call example_virtuals (GetDataCallback 0 1 \<lparr>isCallable = True, js_value = 0\<rparr>) True
       (fst (getData example_virtuals [\<lparr>isValid = True, row = 2\<rparr>] \<lparr>isCallable = True, js_value = 0\<rparr> 7
          example_model)) 8 [None] = Inr []
   \<and> ItemCallback_call example_virtuals (GetDataCallback 0 1 \<lparr>isCallable = True, js_value = 0\<rparr>) True
       (fst (getData example_virtuals [\<lparr>isValid = True, row = 2\<rparr>] \<lparr>isCallable = True, js_value = 0\<rparr> 7
          example_model)) 7 [None] = Inr [JSCall \<lparr>isCallable = True, js_value = 0\<rparr> [Map.empty]]"
proof -
  have no_cells: "length (shared example_model) = 0"
    by (simp add: example_model_def)
  have dict: "dataDict_of example_virtuals None = Map.empty"
    by (simp add: dataDict_of_def)
  show ?thesis
    using getData_callback_guard [where callback = "\<lparr>isCallable = False, js_value = 0\<rparr>"
        and V = example_virtuals and indexes = "[\<lparr>isValid = True, row = 2\<rparr>]" and taskId = 7
        and st = example_model]
      getData_callback_guard [where callback = "\<lparr>isCallable = True, js_value = 0\<rparr>"
        and V = example_virtuals and indexes = "[\<lparr>isValid = True, row = 2\<rparr>]" and taskId = 7
        and st = example_model]
      no_cells dict
    by (simp del: ItemCallback_call.simps)
qed


subsection \<open>Changes forwarded to the cache\<close>

text \<open>
  C6, as stated, says that \<open>updateItemInCache\<close>, like the three other operations, forwards to the
  cache whenever the model has one. With a cache that does not hold the item at hand,
  \<open>updateItemInCache\<close> does nothing at all.
\<close>

theorem updateItemInCache_not_loaded:
  "m_cache (example_counted 5 5) \<noteq> None
   \<and> updateItemInCache example_virtuals example_ListCache (1, 0) 7 (example_counted 5 5)
       = (example_counted 5 5, [])"
  by (simp add: updateItemInCache_def findInCache_def example_counted_def example_model_def
      example_ListCache_def)

text \<open>
  C6, amended. Without a cache each of \<open>updateItemInCache\<close>, \<open>deleteItemInCache\<close>,
  \<open>moveRangeInCache\<close> and \<open>deleteRangeInCache\<close> emits \<open>resetRequested\<close> and changes nothing. With a
  cache none of them requests a reset; \<open>deleteItemInCache\<close>, \<open>moveRangeInCache\<close> and
  \<open>deleteRangeInCache\<close> call \<open>deleteItem\<close>, \<open>moveRange\<close> and \<open>deleteRange\<close> of the cache;
  \<open>updateItemInCache\<close> does nothing when the cache does not hold the item, and otherwise starts a
  load of the item by its id, whose callback calls \<open>updateItem\<close> of the cache with the item
  loaded.
\<close>

theorem cache_changes_forwarded:
  "(m_cache st = None \<longrightarrow>
      updateItemInCache V C mlid taskId st = (st, [Emit resetRequested])
      \<and> deleteItemInCache C mlid st = (st, [Emit resetRequested])
      \<and> moveRangeInCache C first lst to st = (st, [Emit resetRequested])
      \<and> deleteRangeInCache C first lst st = (st, [Emit resetRequested]))
   \<and> (\<forall>cache. m_cache st = Some cache \<longrightarrow>
        deleteItemInCache C mlid st
          = (st\<lparr>m_cache := Some (deleteItem C (\<lambda>item. getId item = mlid) cache)\<rparr>, [])
        \<and> moveRangeInCache C first lst to st = (st\<lparr>m_cache := Some (moveRange C first lst to cache)\<rparr>, [])
        \<and> deleteRangeInCache C first lst st = (st\<lparr>m_cache := Some (deleteRange C first lst cache)\<rparr>, [])
        \<and> Emit resetRequested \<notin> set (snd (updateItemInCache V C mlid taskId st))
        \<and> (findInCache C cache mlid = None \<longrightarrow> updateItemInCache V C mlid taskId st = (st, []))
        \<and> (findInCache C cache mlid \<noteq> None \<longrightarrow>
              (\<exists>loader. updateItemInCache V C mlid taskId st
                 = (st\<lparr>m_itemLoader := Some loader\<rparr>,
                    [LoadItemByIdTask loader taskId mlid UpdateItemCallback])))
        \<and> (\<forall>item loader. ItemByIdCallback_call C UpdateItemCallback (st\<lparr>m_itemLoader := Some loader\<rparr>) taskId item
              = Inr (st\<lparr>m_itemLoader := Some loader, m_cache := Some (updateItem C item cache)\<rparr>)))"
  by (auto simp: updateItemInCache_def deleteItemInCache_def moveRangeInCache_def
      deleteRangeInCache_def Let_def split: option.splits)

theorem cache_changes_forwarded_witness:
  "deleteItemInCache example_ListCache (3, 0) example_model = (example_model, [Emit resetRequested])
   \<and> deleteItemInCache example_ListCache (3, 0) example_loaded = (example_counted 1 1, [])
   \<and> updateItemInCache example_virtuals example_ListCache (4, 0) 7 example_loaded = (example_loaded, [])
   \<and> (\<exists>loader. updateItemInCache example_virtuals example_ListCache (3, 0) 7 example_loaded
         = (example_loaded\<lparr>m_itemLoader := Some loader\<rparr>,
            [LoadItemByIdTask loader 7 (3, 0) UpdateItemCallback]))"
proof -
  let ?cache = "\<lparr>ec_queryCount = 1, ec_maximumCount = 1,
                 ec_items = [\<lparr>getId = (3, 0), item_contents = ''old''\<rparr>]\<rparr>"
  have no_cache: "m_cache example_model = None"
    by (simp add: example_model_def)
  have cache: "m_cache example_loaded = Some ?cache"
    by (simp add: example_loaded_def)
  have found: "findInCache example_ListCache ?cache (3, 0) \<noteq> None"
    "findInCache example_ListCache ?cache (4, 0) = None"
    by (simp_all add: findInCache_def example_ListCache_def)
  have deleted: "example_loaded\<lparr>m_cache := Some (deleteItem example_ListCache (\<lambda>item. getId item = (3, 0)) ?cache)\<rparr>
      = example_counted 1 1"
    by (simp add: example_loaded_def example_counted_def example_ListCache_def)
  show ?thesis
    using cache_changes_forwarded [where st = example_model and C = example_ListCache
        and mlid = "(3, 0)"] no_cache
      cache_changes_forwarded [where st = example_loaded and C = example_ListCache
        and V = example_virtuals and mlid = "(3, 0)" and taskId = 7] cache found deleted
      cache_changes_forwarded [where st = example_loaded and C = example_ListCache
        and V = example_virtuals and mlid = "(4, 0)" and taskId = 7]
    by simp
qed


subsection \<open>UpdateRects when nothing moved\<close>

lemma UpdateRects_no_rect:
  "window_size api source sys = None \<Longrightarrow> UpdateRects B api source sys is_forced = (sys, [])"
  by (simp add: UpdateRects_def)

lemma UpdateRects_not_moved:
  "window_size api source sys = Some rect0 \<Longrightarrow>
   window_moved B api sys rect0 = (rect, point, False, sys1, calls1) \<Longrightarrow>
   UpdateRects B api source sys False = (sys1, calls1)"
  by (simp add: UpdateRects_def)

lemma window_moved_keeps:
  "window_moved B api sys rect0 = (rect, point, moved, sys1, calls1) \<Longrightarrow>
     rect_dest sys1 = rect_dest sys \<and> rect_dest_changed sys1 = rect_dest_changed sys
     \<and> is_first_placement sys1 = is_first_placement sys
     \<and> filter is_SetWindowPos calls1 = []"
  by (auto simp: window_moved_def Let_def split: if_splits)

lemma UpdateRects_windowless:
  "\<not> VLC_WINSTORE_APP B \<Longrightarrow> b_windowless sys \<Longrightarrow> UpdateRects B api source sys False = (sys, [])"
  by (simp add: UpdateRects_def window_size_def window_moved_def)

text \<open>
  C4, as stated, says that in windowless mode every call of \<open>UpdateRects\<close> that is not forced
  returns early and leaves \<open>rect_dest\<close> and \<open>rect_dest_changed\<close> as they are. When the file is
  compiled with \<^verbatim>\<open>VLC_WINSTORE_APP\<close>, a windowless display whose size was not seen before is
  resized by such a call.
\<close>

theorem UpdateRects_winstore_windowless:
  "b_windowless (example_sys\<lparr>b_windowless := True\<rparr>)
   \<and> rect_dest (fst (UpdateRects winstore_build example_os example_source
        (example_sys\<lparr>b_windowless := True\<rparr>) False))
       = \<lparr>r_left = 0, r_top = 0, r_right = 640, r_bottom = 480\<rparr>
   \<and> rect_dest (example_sys\<lparr>b_windowless := True\<rparr>) = \<lparr>r_left = 0, r_top = 0, r_right = 0, r_bottom = 0\<rparr>
   \<and> rect_dest_changed (fst (UpdateRects winstore_build example_os example_source
        (example_sys\<lparr>b_windowless := True\<rparr>) False))
   \<and> \<not> rect_dest_changed (example_sys\<lparr>b_windowless := True\<rparr>)"
  by (simp add: UpdateRects_def window_size_def window_moved_def winstore_build_def
      desktop_build_def example_os_def example_source_def example_sys_def zero_rect_def
      RECTWidth_def RECTHeight_def EqualRect_def Let_def)

text \<open>
  C4, amended. A call of \<open>UpdateRects\<close> that is not forced returns early when the size of the
  window cannot be read, and when the window has neither moved nor been resized since it was
  looked at last: no \<open>SetWindowPos\<close> is called, and \<open>rect_dest\<close>, \<open>rect_dest_changed\<close> and
  \<open>is_first_placement\<close> are as before. Where the file is compiled without
  \<^verbatim>\<open>VLC_WINSTORE_APP\<close>, every call on a windowless display that is not forced returns early,
  with no call and no change at all.
\<close>

theorem UpdateRects_unforced:
  "(window_size api source sys = None \<longrightarrow> UpdateRects B api source sys False = (sys, []))
   \<and> (\<forall>rect0 rect point sys1 calls1.
        window_size api source sys = Some rect0
        \<and> window_moved B api sys rect0 = (rect, point, False, sys1, calls1) \<longrightarrow>
          UpdateRects B api source sys False = (sys1, calls1)
          \<and> rect_dest sys1 = rect_dest sys
          \<and> rect_dest_changed sys1 = rect_dest_changed sys
          \<and> is_first_placement sys1 = is_first_placement sys
          \<and> filter is_SetWindowPos calls1 = [])
   \<and> (\<not> VLC_WINSTORE_APP B \<and> b_windowless sys \<longrightarrow>
        UpdateRects B api source sys False = (sys, []))"
  using UpdateRects_no_rect UpdateRects_not_moved window_moved_keeps UpdateRects_windowless
  by metis

theorem UpdateRects_unforced_witness:
  "UpdateRects desktop_build example_os example_source example_sys False
     = (example_sys, [Call_EventThreadUpdateWindowPosition
                        \<lparr>r_left = 100, r_top = 50, r_right = 900, r_bottom = 650\<rparr>])
   \<and> UpdateRects desktop_build example_os example_source (example_sys\<lparr>b_windowless := True\<rparr>) False
     = (example_sys\<lparr>b_windowless := True\<rparr>, [])"
proof -
  let ?client = "\<lparr>r_left = 0, r_top = 0, r_right = 800, r_bottom = 600\<rparr>"
  let ?moved_to = "\<lparr>r_left = 100, r_top = 50, r_right = 900, r_bottom = 650\<rparr>"
  have size: "window_size example_os example_source example_sys = Some ?client"
    apply (simp add: window_size_def example_os_def example_sys_def)
    done
  have still: "window_moved desktop_build example_os example_sys ?client
      = (?moved_to, \<lparr>pt_x = 100, pt_y = 50\<rparr>, False, example_sys,
         [Call_EventThreadUpdateWindowPosition ?moved_to])"
    by (simp add: window_moved_def desktop_build_def example_os_def example_sys_def OffsetRect_def
        EqualRect_def Let_def)
  have windowless: "\<not> VLC_WINSTORE_APP desktop_build" "b_windowless (example_sys\<lparr>b_windowless := True\<rparr>)"
    by (simp_all add: desktop_build_def)
  show ?thesis
    using UpdateRects_unforced [where B = desktop_build and api = example_os
        and source = example_source and sys = example_sys] size still
      UpdateRects_unforced [where B = desktop_build and api = example_os
        and source = example_source and sys = "example_sys\<lparr>b_windowless := True\<rparr>"] windowless
    by blast
qed


subsection \<open>Fullscreen\<close>

lemma SetFullscreen_fails:
  "(fst (CommonControlSetFullscreen B api sys fs) \<noteq> VLC_SUCCESS)
     = (parent_window sys \<noteq> None \<or> (MODULE_NAME_IS_direct3d9 B \<and> use_desktop sys \<and> fs))"
  by (auto simp: CommonControlSetFullscreen_def Let_def)

lemma SetFullscreen_failed:
  "fst (CommonControlSetFullscreen B api sys fs) \<noteq> VLC_SUCCESS \<Longrightarrow>
     CommonControlSetFullscreen B api sys fs = (VLC_EGENERIC, [])"
  by (simp add: CommonControlSetFullscreen_def Let_def split: if_splits)

lemma SetFullscreen_windowless:
  "fst (CommonControlSetFullscreen B api sys fs) = VLC_SUCCESS \<Longrightarrow> b_windowless sys \<Longrightarrow>
     CommonControlSetFullscreen B api sys fs = (VLC_SUCCESS, [])"
  by (simp add: CommonControlSetFullscreen_def Let_def split: if_splits)

lemma SetFullscreen_applies:
  "fst (CommonControlSetFullscreen B api sys fs) = VLC_SUCCESS \<Longrightarrow> \<not> b_windowless sys \<Longrightarrow>
     \<exists>placement. placement \<noteq> [] \<and>
       snd (CommonControlSetFullscreen B api sys fs) =
         SetWindowLong_STYLE (if hparent sys \<noteq> None \<and> hfswnd sys \<noteq> None then hfswnd sys else hwnd sys)
           (if fs then {WS_CLIPCHILDREN, WS_VISIBLE} else EventThreadGetWindowStyle api)
         # placement"
  by (simp add: CommonControlSetFullscreen_def Let_def split: if_splits)

lemma CommonControl_fullscreen:
  "\<not> VLC_WINSTORE_APP B \<Longrightarrow>
     CommonControl B api source sys (VOUT_DISPLAY_CHANGE_FULLSCREEN fs) =
       (if fst (CommonControlSetFullscreen B api sys fs) \<noteq> VLC_SUCCESS
        then Inr (VLC_EGENERIC, sys, snd (CommonControlSetFullscreen B api sys fs))
        else Inr (VLC_SUCCESS, fst (UpdateRects B api source sys False),
                  snd (CommonControlSetFullscreen B api sys fs) @ snd (UpdateRects B api source sys False)))"
  by (simp add: case_prod_beta)

text \<open>
  C5, as stated, says that the switch to fullscreen fails for a display embedded in a window
  of the host, succeeds trivially for a windowless display, and otherwise is applied and
  succeeds. In the direct3d9 module a display in desktop mode that is neither embedded nor
  windowless is refused fullscreen.
\<close>

theorem fullscreen_direct3d9_desktop:
  "parent_window (example_sys\<lparr>use_desktop := True\<rparr>) = None
   \<and> \<not> b_windowless (example_sys\<lparr>use_desktop := True\<rparr>)
   \<and> CommonControl direct3d9_build example_os example_source (example_sys\<lparr>use_desktop := True\<rparr>)
         (VOUT_DISPLAY_CHANGE_FULLSCREEN True)
       = Inr (VLC_EGENERIC, example_sys\<lparr>use_desktop := True\<rparr>, [])"
  by (simp add: CommonControlSetFullscreen_def direct3d9_build_def desktop_build_def example_sys_def)

text \<open>
  C5, amended. Where fullscreen is compiled in (without \<^verbatim>\<open>VLC_WINSTORE_APP\<close>),
  \<^verbatim>\<open>CommonControl(VOUT_DISPLAY_CHANGE_FULLSCREEN)\<close> returns \<^verbatim>\<open>VLC_EGENERIC\<close>, with no rect
  updated and no window touched, exactly when the switch fails. The switch fails exactly when
  the display is embedded in a window of the host (\<open>parent_window\<close> is not null) or, in the
  direct3d9 module, when the display is in desktop mode and fullscreen is asked for. Otherwise
  it succeeds and \<open>UpdateRects\<close> follows, not forced: trivially for a windowless display (no
  window is touched, nothing changes), and else by setting the style of the window and then
  its placement.
\<close>

theorem fullscreen_control:
  "\<not> VLC_WINSTORE_APP B \<longrightarrow>
     (CommonControl B api source sys (VOUT_DISPLAY_CHANGE_FULLSCREEN fs) = Inr (VLC_EGENERIC, sys, []))
       = (fst (CommonControlSetFullscreen B api sys fs) \<noteq> VLC_SUCCESS)
     \<and> (fst (CommonControlSetFullscreen B api sys fs) \<noteq> VLC_SUCCESS)
         = (parent_window sys \<noteq> None \<or> (MODULE_NAME_IS_direct3d9 B \<and> use_desktop sys \<and> fs))
     \<and> (fst (CommonControlSetFullscreen B api sys fs) = VLC_SUCCESS \<longrightarrow>
          CommonControl B api source sys (VOUT_DISPLAY_CHANGE_FULLSCREEN fs)
            = Inr (VLC_SUCCESS, fst (UpdateRects B api source sys False),
                   snd (CommonControlSetFullscreen B api sys fs) @ snd (UpdateRects B api source sys False))
          \<and> (b_windowless sys \<longrightarrow>
                CommonControlSetFullscreen B api sys fs = (VLC_SUCCESS, [])
                \<and> CommonControl B api source sys (VOUT_DISPLAY_CHANGE_FULLSCREEN fs) = Inr (VLC_SUCCESS, sys, []))
          \<and> (\<not> b_windowless sys \<longrightarrow>
                (\<exists>placement. placement \<noteq> [] \<and>
                   snd (CommonControlSetFullscreen B api sys fs) =
                     SetWindowLong_STYLE
                       (if hparent sys \<noteq> None \<and> hfswnd sys \<noteq> None then hfswnd sys else hwnd sys)
                       (if fs then {WS_CLIPCHILDREN, WS_VISIBLE} else EventThreadGetWindowStyle api)
                     # placement)))"
proof (intro impI conjI)
  assume desktop: "\<not> VLC_WINSTORE_APP B"
  show "(CommonControl B api source sys (VOUT_DISPLAY_CHANGE_FULLSCREEN fs) = Inr (VLC_EGENERIC, sys, []))
       = (fst (CommonControlSetFullscreen B api sys fs) \<noteq> VLC_SUCCESS)"
    unfolding CommonControl_fullscreen [OF desktop] using SetFullscreen_failed [of B api sys fs] by auto
  show "(fst (CommonControlSetFullscreen B api sys fs) \<noteq> VLC_SUCCESS)
         = (parent_window sys \<noteq> None \<or> (MODULE_NAME_IS_direct3d9 B \<and> use_desktop sys \<and> fs))"
    by (rule SetFullscreen_fails)
  assume ok: "fst (CommonControlSetFullscreen B api sys fs) = VLC_SUCCESS"
  show "CommonControl B api source sys (VOUT_DISPLAY_CHANGE_FULLSCREEN fs)
            = Inr (VLC_SUCCESS, fst (UpdateRects B api source sys False),
                   snd (CommonControlSetFullscreen B api sys fs) @ snd (UpdateRects B api source sys False))"
    unfolding CommonControl_fullscreen [OF desktop] using ok by simp
  {
    assume windowless: "b_windowless sys"
    show "CommonControlSetFullscreen B api sys fs = (VLC_SUCCESS, [])"
      using ok windowless by (rule SetFullscreen_windowless)
    then show "CommonControl B api source sys (VOUT_DISPLAY_CHANGE_FULLSCREEN fs) = Inr (VLC_SUCCESS, sys, [])"
      unfolding CommonControl_fullscreen [OF desktop] using ok by (simp add: UpdateRects_windowless [OF desktop windowless])
  }
  {
    assume "\<not> b_windowless sys"
    with ok show "\<exists>placement. placement \<noteq> [] \<and>
                   snd (CommonControlSetFullscreen B api sys fs) =
                     SetWindowLong_STYLE
                       (if hparent sys \<noteq> None \<and> hfswnd sys \<noteq> None then hfswnd sys else hwnd sys)
                       (if fs then {WS_CLIPCHILDREN, WS_VISIBLE} else EventThreadGetWindowStyle api)
                     # placement"
      by (rule SetFullscreen_applies)
  }
qed


theorem fullscreen_control_witness:
  "CommonControl desktop_build example_os example_source example_sys (VOUT_DISPLAY_CHANGE_FULLSCREEN True)
     = Inr (VLC_SUCCESS, example_sys,
            [SetWindowLong_STYLE (Some 1) {WS_CLIPCHILDREN, WS_VISIBLE},
             ShowWindow (Some 1) SW_SHOWMAXIMIZED,
             SetForegroundWindow (Some 1),
             Call_EventThreadUpdateWindowPosition \<lparr>r_left = 100, r_top = 50, r_right = 900, r_bottom = 650\<rparr>])
   \<and> CommonControl desktop_build example_os example_source (example_sys\<lparr>parent_window := Some 9\<rparr>)
       (VOUT_DISPLAY_CHANGE_FULLSCREEN True)
     = Inr (VLC_EGENERIC, example_sys\<lparr>parent_window := Some 9\<rparr>, [])"
proof -
  have desktop: "\<not> VLC_WINSTORE_APP desktop_build"
    by (simp add: desktop_build_def)
  have switch: "CommonControlSetFullscreen desktop_build example_os example_sys True
      = (VLC_SUCCESS, [SetWindowLong_STYLE (Some 1) {WS_CLIPCHILDREN, WS_VISIBLE},
                       ShowWindow (Some 1) SW_SHOWMAXIMIZED, SetForegroundWindow (Some 1)])"
    by (simp add: CommonControlSetFullscreen_def desktop_build_def example_sys_def Let_def)
  have rects: "UpdateRects desktop_build example_os example_source example_sys False
      = (example_sys, [Call_EventThreadUpdateWindowPosition
                         \<lparr>r_left = 100, r_top = 50, r_right = 900, r_bottom = 650\<rparr>])"
    by (simp add: UpdateRects_def window_size_def window_moved_def desktop_build_def example_os_def
        example_sys_def OffsetRect_def EqualRect_def Let_def)
  have embedded: "parent_window (example_sys\<lparr>parent_window := Some 9\<rparr>) \<noteq> None"
    by simp
  show ?thesis
    using fullscreen_control [where B = desktop_build and api = example_os and source = example_source
        and sys = example_sys and fs = True]
      fullscreen_control [where B = desktop_build and api = example_os and source = example_source
        and sys = "example_sys\<lparr>parent_window := Some 9\<rparr>" and fs = True]
      desktop switch rects embedded
    by (simp del: CommonControl.simps)
qed

subsection \<open>Loading the items of a set of rows\<close>


























end
